theory Spec2Isabelle
  imports Main "HOL-Library.Word"
begin

section \<open>Errors\<close>

text \<open>
  The remote service answers over gRPC; a failed call carries a status code and a
  message. The controllers build their own errors with \<^verbatim>\<open>errors.New\<close> and
  \<^verbatim>\<open>errors.Wrap\<close> (github.com/pkg/errors, an external library):
  \<^verbatim>\<open>Wrap(err, msg)\<close> is \<^verbatim>\<open>nil\<close> when \<^verbatim>\<open>err\<close> is \<^verbatim>\<open>nil\<close>.
  A Go \<^verbatim>\<open>error\<close> that may be \<^verbatim>\<open>nil\<close> is an \<open>error option\<close>.
\<close>

datatype Code =
  Canceled | Unknown | InvalidArgument | DeadlineExceeded | NotFound | AlreadyExists
  | PermissionDenied | FailedPrecondition | Internal | Unavailable | Unauthenticated

datatype error =
  GrpcStatus Code string
  | ErrorsNew string
  | ErrorsWrap error string

fun errors_Wrap :: "error option \<Rightarrow> string \<Rightarrow> error option" where
  "errors_Wrap None msg = None"
| "errors_Wrap (Some err) msg = Some (ErrorsWrap err msg)"

text \<open>\<^verbatim>\<open>errors.Cause\<close>: the error under all the wrapping.\<close>

fun Cause :: "error \<Rightarrow> error" where
  "Cause (ErrorsWrap err msg) = Cause err"
| "Cause err = err"

text \<open>The message constants of package \<^verbatim>\<open>cluster\<close> (cluster.go, lines 47-57).\<close>

definition cluster_errNotCluster :: string where
  "cluster_errNotCluster = ''managed resource is not a Cluster custom resource''"
definition cluster_errGetFailed :: string where
  "cluster_errGetFailed = ''cannot get cluster''"
definition cluster_errObserveFailed :: string where
  "cluster_errObserveFailed = ''cannot observe cluster''"
definition cluster_errCreateFailed :: string where
  "cluster_errCreateFailed = ''cannot create cluster''"
definition cluster_errUpdateFailed :: string where
  "cluster_errUpdateFailed = ''cannot update cluster''"
definition cluster_errDeleteFailed :: string where
  "cluster_errDeleteFailed = ''cannot delete cluster''"

text \<open>The message constants of package \<^verbatim>\<open>initbundle\<close> (part_001, lines 107-117).\<close>

definition initbundle_errNotInitBundle :: string where
  "initbundle_errNotInitBundle = ''managed resource is not a InitBundle custom resource''"
definition initbundle_errGetFailed :: string where
  "initbundle_errGetFailed = ''cannot get init bundle''"
definition initbundle_errCreateFailed :: string where
  "initbundle_errCreateFailed = ''cannot create init bundle''"
definition initbundle_errUpdateFailed :: string where
  "initbundle_errUpdateFailed = ''cannot update init bundle''"
definition initbundle_errDeleteFailed :: string where
  "initbundle_errDeleteFailed = ''cannot delete init bundle''"

text \<open>Package \<^verbatim>\<open>central\<close> (part_001, lines 17-20).\<close>

definition ErrNewClient :: string where
  "ErrNewClient = ''cannot create central client''"
definition ErrCloseClient :: string where
  "ErrCloseClient = ''cannot close central client''"

section \<open>Lifecycle conditions\<close>

text \<open>
  The condition values of crossplane-runtime (\<^verbatim>\<open>xpv1\<close>, an external library). A
  condition carries the time of its last transition; \<^verbatim>\<open>xpv1.Creating()\<close>,
  \<^verbatim>\<open>xpv1.Deleting()\<close> and \<^verbatim>\<open>xpv1.Available()\<close> each read the clock
  (\<^verbatim>\<open>metav1.Now()\<close>) to fill it, so they take the time read as their argument.

  A Go time (\<^verbatim>\<open>time.Time\<close>, which \<^verbatim>\<open>metav1.Time\<close> wraps unchanged) is three
  words: \<^verbatim>\<open>wall\<close> (uint64), \<^verbatim>\<open>ext\<close> (int64) and the location pointer
  \<^verbatim>\<open>loc\<close>. A time read from the clock has the monotonic bit set in \<^verbatim>\<open>wall\<close>
  and the monotonic reading in \<^verbatim>\<open>ext\<close>; a time read back from storage or built by
  \<^verbatim>\<open>time.Unix\<close> has neither. Go's \<^verbatim>\<open>==\<close> on two times compares the three words,
  so two times of the same instant may well be different values. HOL's \<open>=\<close> on the
  record is that comparison, and HOL's \<open>=\<close> on two conditions is Go's \<^verbatim>\<open>==\<close> on
  them: it compares every field. \<^verbatim>\<open>Equal\<close> ignores the time.
\<close>

datatype Location = NilLocation | LocalLocation | OtherLocation nat

record Time =
  t_wall :: "64 word"
  t_ext :: "64 word"
  t_loc :: Location

definition zeroTime :: Time where
  "zeroTime = \<lparr>t_wall = 0, t_ext = 0, t_loc = NilLocation\<rparr>"

datatype ConditionType = TypeReady | TypeSynced
datatype ConditionStatus = ConditionTrue | ConditionFalse | ConditionUnknown
datatype ConditionReason =
  ReasonNone | ReasonAvailable | ReasonUnavailable | ReasonCreating | ReasonDeleting

record Condition =
  c_Type :: ConditionType
  c_Status :: ConditionStatus
  c_LastTransitionTime :: Time
  c_Reason :: ConditionReason
  c_Message :: string

definition Creating :: "Time \<Rightarrow> Condition" where
  "Creating now = \<lparr>c_Type = TypeReady, c_Status = ConditionFalse,
     c_LastTransitionTime = now, c_Reason = ReasonCreating, c_Message = []\<rparr>"

definition Deleting :: "Time \<Rightarrow> Condition" where
  "Deleting now = \<lparr>c_Type = TypeReady, c_Status = ConditionFalse,
     c_LastTransitionTime = now, c_Reason = ReasonDeleting, c_Message = []\<rparr>"

definition Available :: "Time \<Rightarrow> Condition" where
  "Available now = \<lparr>c_Type = TypeReady, c_Status = ConditionTrue,
     c_LastTransitionTime = now, c_Reason = ReasonAvailable, c_Message = []\<rparr>"

definition Equal :: "Condition \<Rightarrow> Condition \<Rightarrow> bool" where
  "Equal c other \<longleftrightarrow>
     c_Type c = c_Type other \<and> c_Status c = c_Status other \<and>
     c_Reason c = c_Reason other \<and> c_Message c = c_Message other"

text \<open>
  \<^verbatim>\<open>SetConditions\<close> with one condition: an existing condition of the same type is
  kept when \<^verbatim>\<open>Equal\<close> to the new one and replaced otherwise; a condition of a new
  type is appended. \<^verbatim>\<open>GetCondition\<close> returns the first condition of the type, or
  an Unknown condition of that type with the zero time.
\<close>

fun replaceCondition :: "Condition \<Rightarrow> Condition list \<Rightarrow> Condition list" where
  "replaceCondition new [] = []"
| "replaceCondition new (existing # cs) =
     (if c_Type existing \<noteq> c_Type new then existing # replaceCondition new cs
      else if Equal existing new then existing # replaceCondition new cs
      else new # replaceCondition new cs)"

definition SetConditions :: "Condition \<Rightarrow> Condition list \<Rightarrow> Condition list" where
  "SetConditions new cs =
     (if list_ex (\<lambda>existing. c_Type existing = c_Type new) cs
      then replaceCondition new cs
      else cs @ [new])"

definition GetCondition :: "Condition list \<Rightarrow> ConditionType \<Rightarrow> Condition" where
  "GetCondition cs ct =
     (case find (\<lambda>c. c_Type c = ct) cs of
        Some c \<Rightarrow> c
      | None \<Rightarrow> \<lparr>c_Type = ct, c_Status = ConditionUnknown, c_LastTransitionTime = zeroTime,
                 c_Reason = ReasonNone, c_Message = []\<rparr>)"

section \<open>The external name\<close>

text \<open>
  \<^verbatim>\<open>meta.GetExternalName\<close> and \<^verbatim>\<open>meta.SetExternalName\<close> (crossplane-runtime)
  read and write one annotation of the resource; reading an absent annotation from a Go
  map gives the empty string.
\<close>

type_synonym Annotations = "string \<rightharpoonup> string"

definition AnnotationKeyExternalName :: string where
  "AnnotationKeyExternalName = ''crossplane.io/external-name''"

definition GetExternalName :: "Annotations \<Rightarrow> string" where
  "GetExternalName an =
     (case an AnnotationKeyExternalName of None \<Rightarrow> [] | Some v \<Rightarrow> v)"

definition SetExternalName :: "Annotations \<Rightarrow> string \<Rightarrow> Annotations" where
  "SetExternalName an name = an(AnnotationKeyExternalName \<mapsto> name)"

section \<open>The Cluster kind: data\<close>

text \<open>
  \<^verbatim>\<open>v1alpha1.ClusterParameters\<close>, \<^verbatim>\<open>SensorDeployment\<close> and
  \<^verbatim>\<open>ClusterObservation\<close> (part_000, lines 28-122). A Go map from strings to
  strings is the list of its pairs; where a key occurs twice the first pair is the entry
  (\<open>map_of\<close>). A Go map may be \<^verbatim>\<open>nil\<close>: \<open>None\<close> is the nil map, \<open>Some m\<close>
  an allocated one.
\<close>

type_synonym GoMap = "(string \<times> string) list option"

definition pairs :: "GoMap \<Rightarrow> (string \<times> string) list" where
  "pairs m = (case m of None \<Rightarrow> [] | Some l \<Rightarrow> l)"

definition entries :: "GoMap \<Rightarrow> (string \<rightharpoonup> string)" where
  "entries m = map_of (pairs m)"

record ClusterParameters =
  p_AdmissionController :: bool
  p_AdmissionControllerEvents :: bool
  p_AdmissionControllerUpdates :: bool
  p_CentralAPIEndpoint :: string
  p_CollectionMethod :: string
  p_CollectorImage :: string
  p_Labels :: GoMap
  p_MainImage :: string
  p_Name :: string
  p_SlimCollector :: bool
  p_Tolerations :: bool
  p_Type :: string

record SensorDeployment =
  sd_AppNamespace :: string
  sd_AppNamespaceID :: string
  sd_AppServiceAccountID :: string
  sd_DefaultNamespaceID :: string
  sd_K8SNodeName :: string
  sd_SystemNamespaceID :: string

record ClusterObservation =
  o_AdmissionController :: bool
  o_AdmissionControllerEvents :: bool
  o_AdmissionControllerUpdates :: bool
  o_CentralAPIEndpoint :: string
  o_CollectionMethod :: string
  o_CollectorImage :: string
  o_ID :: string
  o_InitBundleID :: string
  o_Labels :: GoMap
  o_MainImage :: string
  o_ManagedBy :: string
  o_MostRecentSensor :: SensorDeployment
  o_Name :: string
  o_SlimCollector :: bool
  o_Tolerations :: bool
  o_Type :: string

text \<open>
  The custom resource: the annotations of its metadata, \<^verbatim>\<open>Spec.ForProvider\<close>, the
  conditions of its status and \<^verbatim>\<open>Status.AtProvider\<close>.
\<close>

record Cluster =
  cl_Annotations :: Annotations
  cl_ForProvider :: ClusterParameters
  cl_Conditions :: "Condition list"
  cl_AtProvider :: ClusterObservation

text \<open>
  The remote representation \<^verbatim>\<open>storage.Cluster\<close> (generated protobuf code of the
  remote service, an external library). The fields the controller reads or writes are
  named; every other field of the message is in the record's extension slot
  (\<open>storage_Cluster.more\<close>). A pointer to a nested message may be \<^verbatim>\<open>nil\<close>; the
  generated getters read a nil message as the zero value.
\<close>

record storage_TolerationsConfig =
  tc_Disabled :: bool

record storage_SensorDeploymentIdentification =
  si_SystemNamespaceId :: string
  si_DefaultNamespaceId :: string
  si_AppNamespace :: string
  si_AppNamespaceId :: string
  si_AppServiceaccountId :: string
  si_K8SNodeName :: string

record storage_Cluster =
  sc_Id :: string
  sc_Name :: string
  sc_Type :: int
  sc_Labels :: GoMap
  sc_MainImage :: string
  sc_CollectorImage :: string
  sc_CentralApiEndpoint :: string
  sc_CollectionMethod :: int
  sc_AdmissionController :: bool
  sc_AdmissionControllerUpdates :: bool
  sc_AdmissionControllerEvents :: bool
  sc_TolerationsConfig :: "storage_TolerationsConfig option"
  sc_SlimCollector :: bool
  sc_MostRecentSensorId :: "storage_SensorDeploymentIdentification option"
  sc_ManagedBy :: int

definition GetDisabled :: "storage_TolerationsConfig option \<Rightarrow> bool" where
  "GetDisabled t = (case t of None \<Rightarrow> False | Some c \<Rightarrow> tc_Disabled c)"

definition GetSensor :: "storage_SensorDeploymentIdentification option \<Rightarrow>
    storage_SensorDeploymentIdentification" where
  "GetSensor s =
     (case s of
        None \<Rightarrow> \<lparr>si_SystemNamespaceId = [], si_DefaultNamespaceId = [], si_AppNamespace = [],
                  si_AppNamespaceId = [], si_AppServiceaccountId = [], si_K8SNodeName = []\<rparr>
      | Some v \<Rightarrow> v)"

text \<open>The zero message \<^verbatim>\<open>&storage.Cluster{}\<close>, with a given extension.\<close>

definition emptyCluster :: "'a \<Rightarrow> 'a storage_Cluster_scheme" where
  "emptyCluster z = \<lparr>sc_Id = [], sc_Name = [], sc_Type = 0, sc_Labels = None,
     sc_MainImage = [], sc_CollectorImage = [], sc_CentralApiEndpoint = [],
     sc_CollectionMethod = 0, sc_AdmissionController = False,
     sc_AdmissionControllerUpdates = False, sc_AdmissionControllerEvents = False,
     sc_TolerationsConfig = None, sc_SlimCollector = False, sc_MostRecentSensorId = None,
     sc_ManagedBy = 0, \<dots> = z\<rparr>"

subsection \<open>Enumerations\<close>

text \<open>
  Modelled from the spec: the generated tables \<^verbatim>\<open>storage.CollectionMethod_name\<close>,
  \<^verbatim>\<open>storage.CollectionMethod_value\<close>, \<^verbatim>\<open>storage.ClusterType_name\<close>,
  \<^verbatim>\<open>storage.ClusterType_value\<close> and \<^verbatim>\<open>storage.ManagerType_name\<close> are not in
  the source. The spec calls each a closed name-to-code table; the names are the
  variants the resource types declare (part_000, lines 45, 71, 96, 109, 120), the codes
  the protobuf numbers of the remote service. Each table is one list of (code, name)
  pairs read in both directions. A lookup in a Go map gives the zero value for an absent
  key: code 0 for an unknown name, the empty string for an unknown code.
\<close>

definition CollectionMethod_table :: "(int \<times> string) list" where
  "CollectionMethod_table =
     [(0, ''UNSET_COLLECTION''), (1, ''NO_COLLECTION''), (2, ''KERNEL_MODULE''), (3, ''EBPF'')]"

definition ClusterType_table :: "(int \<times> string) list" where
  "ClusterType_table =
     [(0, ''GENERIC_CLUSTER''), (1, ''KUBERNETES_CLUSTER''), (2, ''OPENSHIFT_CLUSTER''),
      (5, ''OPENSHIFT4_CLUSTER'')]"

definition ManagerType_table :: "(int \<times> string) list" where
  "ManagerType_table =
     [(0, ''MANAGER_TYPE_UNKNOWN''), (1, ''MANAGER_TYPE_MANUAL''),
      (2, ''MANAGER_TYPE_HELM_CHART''), (3, ''MANAGER_TYPE_KUBERNETES_OPERATOR'')]"

definition enum_name :: "(int \<times> string) list \<Rightarrow> int \<Rightarrow> string" where
  "enum_name tab code = (case map_of tab code of None \<Rightarrow> [] | Some n \<Rightarrow> n)"

definition enum_value :: "(int \<times> string) list \<Rightarrow> string \<Rightarrow> int" where
  "enum_value tab name =
     (case map_of (map (\<lambda>(c, n). (n, c)) tab) name of None \<Rightarrow> 0 | Some c \<Rightarrow> c)"

definition CollectionMethod_name :: "int \<Rightarrow> string" where
  "CollectionMethod_name = enum_name CollectionMethod_table"
definition CollectionMethod_value :: "string \<Rightarrow> int" where
  "CollectionMethod_value = enum_value CollectionMethod_table"
definition ClusterType_name :: "int \<Rightarrow> string" where
  "ClusterType_name = enum_name ClusterType_table"
definition ClusterType_value :: "string \<Rightarrow> int" where
  "ClusterType_value = enum_value ClusterType_table"
definition ManagerType_name :: "int \<Rightarrow> string" where
  "ManagerType_name = enum_name ManagerType_table"

section \<open>The Cluster kind: mapper\<close>

text \<open>\<^verbatim>\<open>generateObservation\<close> (cluster.go, lines 148-175).\<close>

definition generateObservation :: "'a storage_Cluster_scheme \<Rightarrow> ClusterObservation" where
  "generateObservation c =
     (let s = GetSensor (sc_MostRecentSensorId c);
          mostRecentSensor = \<lparr>
            sd_AppNamespace = si_AppNamespace s,
            sd_AppNamespaceID = si_AppNamespaceId s,
            sd_AppServiceAccountID = si_AppServiceaccountId s,
            sd_DefaultNamespaceID = si_DefaultNamespaceId s,
            sd_K8SNodeName = si_K8SNodeName s,
            sd_SystemNamespaceID = si_SystemNamespaceId s\<rparr>
      in \<lparr>o_AdmissionController = sc_AdmissionController c,
          o_AdmissionControllerEvents = sc_AdmissionControllerEvents c,
          o_AdmissionControllerUpdates = sc_AdmissionControllerUpdates c,
          o_CentralAPIEndpoint = sc_CentralApiEndpoint c,
          o_CollectionMethod = CollectionMethod_name (sc_CollectionMethod c),
          o_CollectorImage = sc_CollectorImage c,
          o_ID = sc_Id c,
          o_InitBundleID = [],
          o_Labels = sc_Labels c,
          o_MainImage = sc_MainImage c,
          o_ManagedBy = ManagerType_name (sc_ManagedBy c),
          o_MostRecentSensor = mostRecentSensor,
          o_Name = sc_Name c,
          o_SlimCollector = sc_SlimCollector c,
          o_Tolerations = (\<not> GetDisabled (sc_TolerationsConfig c)),
          o_Type = ClusterType_name (sc_Type c)\<rparr>)"

text \<open>
  \<^verbatim>\<open>generateCluster\<close> (cluster.go, lines 177-194). The base is a pointer: \<open>None\<close>
  is \<^verbatim>\<open>nil\<close>, replaced by the zero message. The extension of the zero message is the
  argument \<open>z\<close>, the zero value of the fields not named here.
\<close>

definition generateCluster ::
    "'a \<Rightarrow> ClusterParameters \<Rightarrow> 'a storage_Cluster_scheme option \<Rightarrow> 'a storage_Cluster_scheme" where
  "generateCluster z p base =
     (let b = (case base of None \<Rightarrow> emptyCluster z | Some c \<Rightarrow> c)
      in b\<lparr>sc_AdmissionController := p_AdmissionController p,
           sc_AdmissionControllerEvents := p_AdmissionControllerEvents p,
           sc_AdmissionControllerUpdates := p_AdmissionControllerUpdates p,
           sc_CentralApiEndpoint := p_CentralAPIEndpoint p,
           sc_CollectionMethod := CollectionMethod_value (p_CollectionMethod p),
           sc_CollectorImage := p_CollectorImage p,
           sc_Labels := p_Labels p,
           sc_MainImage := p_MainImage p,
           sc_Name := p_Name p,
           sc_SlimCollector := p_SlimCollector p,
           sc_TolerationsConfig := Some \<lparr>tc_Disabled = (\<not> p_Tolerations p)\<rparr>,
           sc_Type := ClusterType_value (p_Type p)\<rparr>)"

text \<open>
  \<^verbatim>\<open>cmp.Diff(x, y, cmpopts.EquateEmpty())\<close> (go-cmp, an external library) on two
  parameter sets. The report is modelled by the names of the fields that differ, one
  line each, in the order of the struct; how go-cmp renders a line is not modelled. The
  report is empty exactly when no field differs. With \<^verbatim>\<open>EquateEmpty\<close> a nil map and
  an allocated map without entries are equal, so two maps differ when their entries do:
  when some key of either has different entries in the two.
\<close>

definition same_entries :: "GoMap \<Rightarrow> GoMap \<Rightarrow> bool" where
  "same_entries a b =
     list_all (\<lambda>k. entries a k = entries b k) (map fst (pairs a) @ map fst (pairs b))"

definition differs :: "string \<Rightarrow> bool \<Rightarrow> string list" where
  "differs field same = (if same then [] else [field])"

definition cmp_Diff :: "ClusterParameters \<Rightarrow> ClusterParameters \<Rightarrow> string list" where
  "cmp_Diff x y =
     differs ''AdmissionController'' (p_AdmissionController x = p_AdmissionController y)
     @ differs ''AdmissionControllerEvents''
         (p_AdmissionControllerEvents x = p_AdmissionControllerEvents y)
     @ differs ''AdmissionControllerUpdates''
         (p_AdmissionControllerUpdates x = p_AdmissionControllerUpdates y)
     @ differs ''CentralAPIEndpoint'' (p_CentralAPIEndpoint x = p_CentralAPIEndpoint y)
     @ differs ''CollectionMethod'' (p_CollectionMethod x = p_CollectionMethod y)
     @ differs ''CollectorImage'' (p_CollectorImage x = p_CollectorImage y)
     @ differs ''Labels'' (same_entries (p_Labels x) (p_Labels y))
     @ differs ''MainImage'' (p_MainImage x = p_MainImage y)
     @ differs ''Name'' (p_Name x = p_Name y)
     @ differs ''SlimCollector'' (p_SlimCollector x = p_SlimCollector y)
     @ differs ''Tolerations'' (p_Tolerations x = p_Tolerations y)
     @ differs ''Type'' (p_Type x = p_Type y)"

text \<open>
  \<^verbatim>\<open>isUpToDate\<close> (cluster.go, lines 196-216). The diff is a list of lines; the empty
  list is the empty string.
\<close>

definition isUpToDate :: "Cluster \<Rightarrow> 'a storage_Cluster_scheme \<Rightarrow> bool \<times> string list" where
  "isUpToDate cr observed =
     (let observedParams = \<lparr>
            p_AdmissionController = sc_AdmissionController observed,
            p_AdmissionControllerEvents = sc_AdmissionControllerEvents observed,
            p_AdmissionControllerUpdates = sc_AdmissionControllerUpdates observed,
            p_CentralAPIEndpoint = sc_CentralApiEndpoint observed,
            p_CollectionMethod = CollectionMethod_name (sc_CollectionMethod observed),
            p_CollectorImage = sc_CollectorImage observed,
            p_Labels = sc_Labels observed,
            p_MainImage = sc_MainImage observed,
            p_Name = sc_Name observed,
            p_SlimCollector = sc_SlimCollector observed,
            p_Tolerations = (\<not> GetDisabled (sc_TolerationsConfig observed)),
            p_Type = ClusterType_name (sc_Type observed)\<rparr>;
          diff = cmp_Diff (cl_ForProvider cr) observedParams
      in if diff \<noteq> [] then (False, ''Observed difference in cluster'' # diff)
         else (True, []))"

section \<open>The InitBundle kind: data and mapper\<close>

text \<open>
  \<^verbatim>\<open>v1alpha1.ImpactedCluster\<close>, \<^verbatim>\<open>User\<close>, \<^verbatim>\<open>InitBundleParameters\<close> and
  \<^verbatim>\<open>InitBundleObservation\<close> (initbundle_types.go, lines 28-77).
\<close>

record ImpactedCluster =
  ic_ID :: string
  ic_Name :: string

record User =
  u_Attributes :: GoMap
  u_AuthProviderID :: string
  u_ID :: string

record InitBundleParameters =
  bp_Name :: string

record InitBundleObservation =
  bo_CreatedAt :: Time
  bo_CreatedBy :: User
  bo_ExpiresAt :: Time
  bo_ID :: string
  bo_ImpactedClusters :: "ImpactedCluster list"
  bo_Name :: string

record InitBundle =
  ib_Annotations :: Annotations
  ib_ForProvider :: InitBundleParameters
  ib_Conditions :: "Condition list"
  ib_AtProvider :: InitBundleObservation

text \<open>
  The remote representation \<^verbatim>\<open>v1.InitBundleMeta\<close> and the answer to a generate
  request (generated protobuf code of the remote service, an external library).
\<close>

record Timestamp =
  ts_Seconds :: "64 word"
  ts_Nanos :: "32 word"

record UserAttribute =
  ua_Key :: string
  ua_Value :: string

record storage_User =
  su_Id :: string
  su_AuthProviderId :: string
  su_Attributes :: "UserAttribute list"

record InitBundleMeta_ImpactedCluster =
  mi_Name :: string
  mi_Id :: string

record InitBundleMeta =
  bm_Id :: string
  bm_Name :: string
  bm_ImpactedClusters :: "InitBundleMeta_ImpactedCluster list"
  bm_CreatedAt :: "Timestamp option"
  bm_CreatedBy :: "storage_User option"
  bm_ExpiresAt :: "Timestamp option"

record InitBundleGenResponse =
  gr_Meta :: "InitBundleMeta option"
  gr_HelmValuesBundle :: string
  gr_KubectlBundle :: string

text \<open>
  The getters of a timestamp that may be nil read nil as zero; \<^verbatim>\<open>int64(n)\<close> of an
  int32 extends the sign.
\<close>

definition GetSeconds :: "Timestamp option \<Rightarrow> 64 word" where
  "GetSeconds t = (case t of None \<Rightarrow> 0 | Some ts \<Rightarrow> ts_Seconds ts)"

definition GetNanos :: "Timestamp option \<Rightarrow> 32 word" where
  "GetNanos t = (case t of None \<Rightarrow> 0 | Some ts \<Rightarrow> ts_Nanos ts)"

definition int64 :: "32 word \<Rightarrow> 64 word" where
  "int64 n = word_of_int (sint n)"

text \<open>
  \<^verbatim>\<open>time.Unix(sec, nsec)\<close> (Go's standard library): both arguments are int64.
  Nanoseconds outside [0, 1e9) are carried into the seconds, with Go's division that
  truncates toward zero; the seconds are machine integers and wrap. The arithmetic on
  the nanoseconds cannot leave the int64 range (\<open>n * 1e9\<close> is no larger than
  \<open>nsec\<close> in absolute value), so it is done on their signed value. \<^verbatim>\<open>unixTime\<close>
  stores the nanoseconds in \<^verbatim>\<open>wall\<close>, the seconds since year 1 in \<^verbatim>\<open>ext\<close>,
  and the local location.
\<close>

definition go_quot :: "int \<Rightarrow> int \<Rightarrow> int" where
  "go_quot a b = (if (a < 0) = (b < 0) then \<bar>a\<bar> div \<bar>b\<bar> else - (\<bar>a\<bar> div \<bar>b\<bar>))"

definition unixToInternal :: "64 word" where
  "unixToInternal = 62135596800"

definition unixTime :: "64 word \<Rightarrow> int \<Rightarrow> Time" where
  "unixTime sec nsec =
     \<lparr>t_wall = word_of_int nsec, t_ext = sec + unixToInternal, t_loc = LocalLocation\<rparr>"

definition time_Unix :: "64 word \<Rightarrow> 64 word \<Rightarrow> Time" where
  "time_Unix sec nsec =
     (let ns = sint nsec
      in if ns < 0 \<or> ns \<ge> 1000000000
         then (let n = go_quot ns 1000000000;
                   sec1 = sec + word_of_int n;
                   ns1 = ns - n * 1000000000
               in if ns1 < 0 then unixTime (sec1 - 1) (ns1 + 1000000000)
                  else unixTime sec1 ns1)
         else unixTime sec ns)"

definition GetAttributes :: "storage_User option \<Rightarrow> UserAttribute list" where
  "GetAttributes u = (case u of None \<Rightarrow> [] | Some v \<Rightarrow> su_Attributes v)"

definition GetAuthProviderId :: "storage_User option \<Rightarrow> string" where
  "GetAuthProviderId u = (case u of None \<Rightarrow> [] | Some v \<Rightarrow> su_AuthProviderId v)"

definition GetUserId :: "storage_User option \<Rightarrow> string" where
  "GetUserId u = (case u of None \<Rightarrow> [] | Some v \<Rightarrow> su_Id v)"

text \<open>
  \<^verbatim>\<open>generateObservation\<close> of package initbundle (part_001, lines 208-231). The
  loop stores each attribute under its key, a later one over an earlier one: the new
  pair goes in front.
\<close>

definition initbundle_generateObservation :: "InitBundleMeta \<Rightarrow> InitBundleObservation" where
  "initbundle_generateObservation m =
     (let att = foldl (\<lambda>a it. (ua_Key it, ua_Value it) # a) []
                  (GetAttributes (bm_CreatedBy m));
          ic = map (\<lambda>it. \<lparr>ic_ID = mi_Id it, ic_Name = mi_Name it\<rparr>) (bm_ImpactedClusters m)
      in \<lparr>bo_CreatedAt = time_Unix (GetSeconds (bm_CreatedAt m))
                            (int64 (GetNanos (bm_CreatedAt m))),
          bo_CreatedBy = \<lparr>u_Attributes = Some att,
                          u_AuthProviderID = GetAuthProviderId (bm_CreatedBy m),
                          u_ID = GetUserId (bm_CreatedBy m)\<rparr>,
          bo_ExpiresAt = time_Unix (GetSeconds (bm_ExpiresAt m))
                           (int64 (GetNanos (bm_ExpiresAt m))),
          bo_ID = bm_Id m,
          bo_ImpactedClusters = ic,
          bo_Name = bm_Name m\<rparr>)"


section \<open>Managed resources and the results of the reconciler's calls\<close>

text \<open>
  \<^verbatim>\<open>resource.Managed\<close> is an interface; each controller asserts the kind it
  reconciles and fails on the other. \<^verbatim>\<open>managed.ExternalObservation\<close> and
  \<^verbatim>\<open>managed.ExternalCreation\<close> with the fields the controllers set;
  \<^verbatim>\<open>managed.ExternalUpdate\<close> is always returned empty, so Update and Delete are
  modelled by the error they return.
\<close>

datatype Managed = ClusterMR Cluster | InitBundleMR InitBundle

record ExternalObservation =
  ResourceExists :: bool
  ResourceUpToDate :: bool
  Diff :: "string list"

record ExternalCreation =
  ConnectionDetails :: GoMap

section \<open>The world outside the controller\<close>

text \<open>
  A call to the remote service or a reading of the clock is answered by the
  environment. The environment has a state of its own (\<open>'s\<close>: the remote collection,
  the connection, the time), which every answer may depend on and change. The world the
  controller runs in is that state and the log of the remote calls issued so far.
\<close>

record ('q, 's) world =
  calls :: "'q list"
  ext :: 's

datatype 'a ClusterCall =
  CallGetClusters
  | CallPostCluster "'a storage_Cluster_scheme"
  | CallPutCluster "'a storage_Cluster_scheme"
  | CallDeleteCluster string

text \<open>
  The clusters service (\<^verbatim>\<open>v1.ClustersServiceClient\<close>): the answer of each call is
  an error or a response; a cluster response may carry no cluster. \<open>cl_zero\<close> is the
  zero value of the fields of \<^verbatim>\<open>storage.Cluster\<close> that are not modelled.
\<close>

record ('a, 's) ClusterEnv =
  GetClusters :: "'s \<Rightarrow> (error + 'a storage_Cluster_scheme list) \<times> 's"
  PostCluster :: "'a storage_Cluster_scheme \<Rightarrow> 's \<Rightarrow> (error + 'a storage_Cluster_scheme option) \<times> 's"
  PutCluster :: "'a storage_Cluster_scheme \<Rightarrow> 's \<Rightarrow> (error + 'a storage_Cluster_scheme option) \<times> 's"
  DeleteCluster :: "string \<Rightarrow> 's \<Rightarrow> error option \<times> 's"
  cl_Now :: "'s \<Rightarrow> Time \<times> 's"
  cl_zero :: 'a

type_synonym ('a, 's) cworld = "('a ClusterCall, 's) world"

definition rpc_GetClusters ::
    "('a, 's) ClusterEnv \<Rightarrow> ('a, 's) cworld \<Rightarrow> (error + 'a storage_Cluster_scheme list) \<times> ('a, 's) cworld" where
  "rpc_GetClusters env w =
     (let (r, s) = GetClusters env (ext w)
      in (r, \<lparr>calls = calls w @ [CallGetClusters], ext = s\<rparr>))"

definition rpc_PostCluster ::
    "('a, 's) ClusterEnv \<Rightarrow> 'a storage_Cluster_scheme \<Rightarrow> ('a, 's) cworld \<Rightarrow>
     (error + 'a storage_Cluster_scheme option) \<times> ('a, 's) cworld" where
  "rpc_PostCluster env req w =
     (let (r, s) = PostCluster env req (ext w)
      in (r, \<lparr>calls = calls w @ [CallPostCluster req], ext = s\<rparr>))"

definition rpc_PutCluster ::
    "('a, 's) ClusterEnv \<Rightarrow> 'a storage_Cluster_scheme \<Rightarrow> ('a, 's) cworld \<Rightarrow>
     (error + 'a storage_Cluster_scheme option) \<times> ('a, 's) cworld" where
  "rpc_PutCluster env req w =
     (let (r, s) = PutCluster env req (ext w)
      in (r, \<lparr>calls = calls w @ [CallPutCluster req], ext = s\<rparr>))"

definition rpc_DeleteCluster ::
    "('a, 's) ClusterEnv \<Rightarrow> string \<Rightarrow> ('a, 's) cworld \<Rightarrow> error option \<times> ('a, 's) cworld" where
  "rpc_DeleteCluster env ident w =
     (let (r, s) = DeleteCluster env ident (ext w)
      in (r, \<lparr>calls = calls w @ [CallDeleteCluster ident], ext = s\<rparr>))"

definition cluster_metav1_Now ::
    "('a, 's) ClusterEnv \<Rightarrow> ('a, 's) cworld \<Rightarrow> Time \<times> ('a, 's) cworld" where
  "cluster_metav1_Now env w =
     (let (t, s) = cl_Now env (ext w) in (t, \<lparr>calls = calls w, ext = s\<rparr>))"

datatype InitBundleCall =
  CallGetInitBundles
  | CallGenerateInitBundle string
  | CallRevokeInitBundle "string list"

text \<open>The cluster-init service (\<^verbatim>\<open>v1.ClusterInitServiceClient\<close>).\<close>

record 's InitBundleEnv =
  GetInitBundles :: "'s \<Rightarrow> (error + InitBundleMeta list) \<times> 's"
  GenerateInitBundle :: "string \<Rightarrow> 's \<Rightarrow> (error + InitBundleGenResponse) \<times> 's"
  RevokeInitBundle :: "string list \<Rightarrow> 's \<Rightarrow> error option \<times> 's"
  ib_Now :: "'s \<Rightarrow> Time \<times> 's"

type_synonym 's bworld = "(InitBundleCall, 's) world"


definition rpc_GenerateInitBundle ::
    "'s InitBundleEnv \<Rightarrow> string \<Rightarrow> 's bworld \<Rightarrow> (error + InitBundleGenResponse) \<times> 's bworld" where
  "rpc_GenerateInitBundle env name w =
     (let (r, s) = GenerateInitBundle env name (ext w)
      in (r, \<lparr>calls = calls w @ [CallGenerateInitBundle name], ext = s\<rparr>))"

definition rpc_RevokeInitBundle ::
    "'s InitBundleEnv \<Rightarrow> string list \<Rightarrow> 's bworld \<Rightarrow> error option \<times> 's bworld" where
  "rpc_RevokeInitBundle env ids w =
     (let (r, s) = RevokeInitBundle env ids (ext w)
      in (r, \<lparr>calls = calls w @ [CallRevokeInitBundle ids], ext = s\<rparr>))"

definition initbundle_metav1_Now :: "'s InitBundleEnv \<Rightarrow> 's bworld \<Rightarrow> Time \<times> 's bworld" where
  "initbundle_metav1_Now env w =
     (let (t, s) = ib_Now env (ext w) in (t, \<lparr>calls = calls w, ext = s\<rparr>))"

section \<open>The Cluster kind: external client\<close>

text \<open>
  Every operation takes the environment, the managed resource and the world, and
  returns its result, the resource as the operation leaves it (the Go code mutates it
  through a pointer) and the world after the calls it made.

  \<^verbatim>\<open>getCluster\<close> (cluster.go, lines 218-230): the loop returns the first entry whose
  name is the external name, \<open>None\<close> (nil) when there is none.
\<close>

definition getCluster ::
    "('a, 's) ClusterEnv \<Rightarrow> Cluster \<Rightarrow> ('a, 's) cworld \<Rightarrow>
     (error + 'a storage_Cluster_scheme option) \<times> ('a, 's) cworld" where
  "getCluster env cr w =
     (case rpc_GetClusters env w of
        (Inl err, w1) \<Rightarrow> (Inl (ErrorsWrap err cluster_errGetFailed), w1)
      | (Inr clusters, w1) \<Rightarrow>
          (Inr (find (\<lambda>it. sc_Name it = GetExternalName (cl_Annotations cr)) clusters), w1))"

text \<open>\<^verbatim>\<open>Observe\<close> (cluster.go, lines 232-255).\<close>

definition cluster_Observe ::
    "('a, 's) ClusterEnv \<Rightarrow> Managed \<Rightarrow> ('a, 's) cworld \<Rightarrow>
     (error + ExternalObservation) \<times> Managed \<times> ('a, 's) cworld" where
  "cluster_Observe env mg w =
     (case mg of
        InitBundleMR b \<Rightarrow> (Inl (ErrorsNew cluster_errNotCluster), mg, w)
      | ClusterMR cr \<Rightarrow>
          (case getCluster env cr w of
             (Inl err, w1) \<Rightarrow> (Inl (ErrorsWrap err cluster_errObserveFailed), mg, w1)
           | (Inr None, w1) \<Rightarrow>
               (Inr \<lparr>ResourceExists = False, ResourceUpToDate = False, Diff = []\<rparr>, mg, w1)
           | (Inr (Some cluster), w1) \<Rightarrow>
               (let (now, w2) = cluster_metav1_Now env w1;
                    cr1 = cr\<lparr>cl_AtProvider := generateObservation cluster\<rparr>;
                    cr2 = cr1\<lparr>cl_Conditions := SetConditions (Available now) (cl_Conditions cr1)\<rparr>;
                    (upToDate, diff) = isUpToDate cr2 cluster
                in (Inr \<lparr>ResourceExists = True, ResourceUpToDate = upToDate, Diff = diff\<rparr>,
                    ClusterMR cr2, w2))))"

text \<open>\<^verbatim>\<open>Create\<close> (cluster.go, lines 257-276).\<close>

definition cluster_Create ::
    "('a, 's) ClusterEnv \<Rightarrow> Managed \<Rightarrow> ('a, 's) cworld \<Rightarrow>
     (error + ExternalCreation) \<times> Managed \<times> ('a, 's) cworld" where
  "cluster_Create env mg w =
     (case mg of
        InitBundleMR b \<Rightarrow> (Inl (ErrorsNew cluster_errNotCluster), mg, w)
      | ClusterMR cr \<Rightarrow>
          (let (now, w1) = cluster_metav1_Now env w;
               cr1 = cr\<lparr>cl_Conditions := SetConditions (Creating now) (cl_Conditions cr)\<rparr>;
               req = generateCluster (cl_zero env) (cl_ForProvider cr1) None
           in case rpc_PostCluster env req w1 of
                (Inl err, w2) \<Rightarrow> (Inl (ErrorsWrap err cluster_errCreateFailed), ClusterMR cr1, w2)
              | (Inr None, w2) \<Rightarrow> (Inr \<lparr>ConnectionDetails = None\<rparr>, ClusterMR cr1, w2)
              | (Inr (Some c), w2) \<Rightarrow>
                  (Inr \<lparr>ConnectionDetails = None\<rparr>,
                   ClusterMR (cr1\<lparr>cl_AtProvider := generateObservation c,
                                  cl_Annotations := SetExternalName (cl_Annotations cr1) (sc_Name c)\<rparr>),
                   w2)))"

text \<open>\<^verbatim>\<open>Update\<close> (cluster.go, lines 278-304).\<close>

definition cluster_Update ::
    "('a, 's) ClusterEnv \<Rightarrow> Managed \<Rightarrow> ('a, 's) cworld \<Rightarrow>
     error option \<times> Managed \<times> ('a, 's) cworld" where
  "cluster_Update env mg w =
     (case mg of
        InitBundleMR b \<Rightarrow> (Some (ErrorsNew cluster_errNotCluster), mg, w)
      | ClusterMR cr \<Rightarrow>
          (case getCluster env cr w of
             (Inl err, w1) \<Rightarrow> (Some (ErrorsWrap err cluster_errUpdateFailed), mg, w1)
           | (Inr None, w1) \<Rightarrow> (None, mg, w1)
           | (Inr (Some cluster), w1) \<Rightarrow>
               (let req = generateCluster (cl_zero env) (cl_ForProvider cr) (Some cluster)
                in case rpc_PutCluster env req w1 of
                     (Inl err, w2) \<Rightarrow> (Some (ErrorsWrap err cluster_errCreateFailed), mg, w2)
                   | (Inr None, w2) \<Rightarrow> (None, mg, w2)
                   | (Inr (Some c), w2) \<Rightarrow>
                       (None,
                        ClusterMR (cr\<lparr>cl_AtProvider := generateObservation c,
                                      cl_Annotations := SetExternalName (cl_Annotations cr) (sc_Name c)\<rparr>),
                        w2))))"

text \<open>\<^verbatim>\<open>Delete\<close> (cluster.go, lines 306-316).\<close>

definition cluster_Delete ::
    "('a, 's) ClusterEnv \<Rightarrow> Managed \<Rightarrow> ('a, 's) cworld \<Rightarrow>
     error option \<times> Managed \<times> ('a, 's) cworld" where
  "cluster_Delete env mg w =
     (case mg of
        InitBundleMR b \<Rightarrow> (Some (ErrorsNew cluster_errNotCluster), mg, w)
      | ClusterMR cr \<Rightarrow>
          (let (now, w1) = cluster_metav1_Now env w;
               cr1 = cr\<lparr>cl_Conditions := SetConditions (Deleting now) (cl_Conditions cr)\<rparr>;
               (err, w2) = rpc_DeleteCluster env (o_ID (cl_AtProvider cr1)) w1
           in (errors_Wrap err cluster_errDeleteFailed, ClusterMR cr1, w2)))"

section \<open>The InitBundle kind: external client\<close>



text \<open>\<^verbatim>\<open>Create\<close> (part_001, lines 281-305).\<close>

definition initbundle_Create ::
    "'s InitBundleEnv \<Rightarrow> Managed \<Rightarrow> 's bworld \<Rightarrow>
     (error + ExternalCreation) \<times> Managed \<times> 's bworld" where
  "initbundle_Create env mg w =
     (case mg of
        ClusterMR c \<Rightarrow> (Inl (ErrorsNew initbundle_errNotInitBundle), mg, w)
      | InitBundleMR cr \<Rightarrow>
          (let (now, w1) = initbundle_metav1_Now env w;
               cr1 = cr\<lparr>ib_Conditions := SetConditions (Creating now) (ib_Conditions cr)\<rparr>
           in case rpc_GenerateInitBundle env (bp_Name (ib_ForProvider cr1)) w1 of
                (Inl err, w2) \<Rightarrow>
                  (Inl (ErrorsWrap err initbundle_errCreateFailed), InitBundleMR cr1, w2)
              | (Inr resp, w2) \<Rightarrow>
                  (let cr2 = (case gr_Meta resp of
                                None \<Rightarrow> cr1
                              | Some m \<Rightarrow>
                                  cr1\<lparr>ib_AtProvider := initbundle_generateObservation m,
                                      ib_Annotations :=
                                        SetExternalName (ib_Annotations cr1) (bm_Name m)\<rparr>)
                   in (Inr \<lparr>ConnectionDetails =
                              Some [(''helmValuesBundle'', gr_HelmValuesBundle resp),
                                    (''kubectlBundle'', gr_KubectlBundle resp)]\<rparr>,
                       InitBundleMR cr2, w2))))"

text \<open>\<^verbatim>\<open>Delete\<close> (part_001, lines 321-332).\<close>

definition initbundle_Delete ::
    "'s InitBundleEnv \<Rightarrow> Managed \<Rightarrow> 's bworld \<Rightarrow> error option \<times> Managed \<times> 's bworld" where
  "initbundle_Delete env mg w =
     (case mg of
        ClusterMR c \<Rightarrow> (Some (ErrorsNew initbundle_errNotInitBundle), mg, w)
      | InitBundleMR cr \<Rightarrow>
          (let (now, w1) = initbundle_metav1_Now env w;
               cr1 = cr\<lparr>ib_Conditions := SetConditions (Deleting now) (ib_Conditions cr)\<rparr>;
               (err, w2) = rpc_RevokeInitBundle env [bo_ID (ib_AtProvider cr1)] w1
           in (errors_Wrap err initbundle_errDeleteFailed, InitBundleMR cr1, w2)))"

text \<open>
  \<^verbatim>\<open>Update\<close> (part_001, lines 307-319). The guard compares the Ready condition with
  \<^verbatim>\<open>==\<close> to the value \<^verbatim>\<open>xpv1.Creating()\<close> builds at that moment, and only when
  they differ to the value \<^verbatim>\<open>xpv1.Deleting()\<close> builds; each reads the clock.
\<close>

definition initbundle_Update ::
    "'s InitBundleEnv \<Rightarrow> Managed \<Rightarrow> 's bworld \<Rightarrow> error option \<times> Managed \<times> 's bworld" where
  "initbundle_Update env mg w =
     (case mg of
        ClusterMR c \<Rightarrow> (Some (ErrorsNew initbundle_errNotInitBundle), mg, w)
      | InitBundleMR cr \<Rightarrow>
          (let (t1, w1) = initbundle_metav1_Now env w
           in if GetCondition (ib_Conditions cr) TypeReady = Creating t1 then (None, mg, w1)
              else
                (let (t2, w2) = initbundle_metav1_Now env w1
                 in if GetCondition (ib_Conditions cr) TypeReady = Deleting t2 then (None, mg, w2)
                    else
                      (let (err, mg', w3) = initbundle_Delete env mg w2
                       in (errors_Wrap err initbundle_errUpdateFailed, mg', w3)))))"

section \<open>The connector\<close>

text \<open>
  A gRPC client connection (\<^verbatim>\<open>grpc.ClientConn\<close>, an external library):
  \<^verbatim>\<open>Close\<close> tears an open connection down and returns nil; on a connection that
  is already closed it returns \<^verbatim>\<open>ErrClientConnClosing\<close>.
\<close>

datatype ClientConn = ConnOpen | ConnClosed

definition ErrClientConnClosing :: error where
  "ErrClientConnClosing = GrpcStatus Canceled ''grpc: the client connection is closing''"

fun grpc_Close :: "ClientConn \<Rightarrow> error option \<times> ClientConn" where
  "grpc_Close ConnOpen = (None, ConnClosed)"
| "grpc_Close ConnClosed = (Some ErrClientConnClosing, ConnClosed)"

text \<open>
  \<^verbatim>\<open>external\<close> and \<^verbatim>\<open>connector\<close> (cluster.go, lines 87-91 and 136-138; part_001,
  lines 147-151 and 196-198; the two packages declare them alike). Both are reached
  through pointers that may be nil. The connector's Kubernetes client and usage tracker
  play no part in closing and are left out.
\<close>

record external =
  client :: "ClientConn option"

record connector =
  external :: "external option"

text \<open>
  \<^verbatim>\<open>close\<close> (cluster.go, lines 140-146; part_001, lines 200-206), on a receiver that
  may be nil; it returns the error and the receiver with its connection as
  \<^verbatim>\<open>Close\<close> left it.
\<close>

definition close :: "external option \<Rightarrow> error option \<times> external option" where
  "close c =
     (case c of
        None \<Rightarrow> (None, c)
      | Some e \<Rightarrow>
          (case client e of
             None \<Rightarrow> (None, c)
           | Some conn \<Rightarrow>
               (let (err, conn') = grpc_Close conn
                in (errors_Wrap err ErrCloseClient, Some (e\<lparr>client := Some conn'\<rparr>)))))"

text \<open>\<^verbatim>\<open>Disconnect\<close> (cluster.go, lines 129-132; part_001, lines 189-192).\<close>

definition cluster_Disconnect :: "connector \<Rightarrow> error option \<times> connector" where
  "cluster_Disconnect c =
     (let (err, e) = close (external c)
      in (errors_Wrap err ErrCloseClient, c\<lparr>external := e\<rparr>))"

definition initbundle_Disconnect :: "connector \<Rightarrow> error option \<times> connector" where
  "initbundle_Disconnect c =
     (let (err, e) = close (external c)
      in (errors_Wrap err ErrCloseClient, c\<lparr>external := e\<rparr>))"

section \<open>Example inputs\<close>

text \<open>
  Concrete inputs the theorems below are run on: a parameter set, a remote entry that
  differs from it in the collector image, the custom resource linked to that entry, and
  environments that answer every call with a fixed response and read the clock as
  \<open>ex_now\<close>, a time as the clock gives it. \<open>ex_stored\<close> is a time as it is read
  back from storage. \<open>listInitBundleEnv\<close> is a remote service whose state is its
  collection of init bundles: it lists the collection, and a revoke call removes the
  entries that carry one of the identifiers.
\<close>

definition ex_now :: Time where
  "ex_now = \<lparr>t_wall = 9223372036854775809, t_ext = 1500, t_loc = LocalLocation\<rparr>"

definition ex_stored :: Time where
  "ex_stored = \<lparr>t_wall = 0, t_ext = 63800000000, t_loc = NilLocation\<rparr>"

definition ex_params :: ClusterParameters where
  "ex_params = \<lparr>p_AdmissionController = True, p_AdmissionControllerEvents = False,
     p_AdmissionControllerUpdates = False, p_CentralAPIEndpoint = ''central:443'',
     p_CollectionMethod = ''EBPF'', p_CollectorImage = ''collector:2'', p_Labels = None,
     p_MainImage = ''main:2'', p_Name = ''prod'', p_SlimCollector = True,
     p_Tolerations = True, p_Type = ''KUBERNETES_CLUSTER''\<rparr>"

definition ex_remote :: storage_Cluster where
  "ex_remote = \<lparr>sc_Id = ''id-1'', sc_Name = ''prod'', sc_Type = 1, sc_Labels = Some [],
     sc_MainImage = ''main:2'', sc_CollectorImage = ''collector:1'',
     sc_CentralApiEndpoint = ''central:443'', sc_CollectionMethod = 3,
     sc_AdmissionController = True, sc_AdmissionControllerUpdates = False,
     sc_AdmissionControllerEvents = False, sc_TolerationsConfig = None,
     sc_SlimCollector = True, sc_MostRecentSensorId = None, sc_ManagedBy = 1\<rparr>"

definition ex_cluster :: Cluster where
  "ex_cluster = \<lparr>cl_Annotations = [AnnotationKeyExternalName \<mapsto> ''prod''],
     cl_ForProvider = ex_params, cl_Conditions = [],
     cl_AtProvider = generateObservation ex_remote\<rparr>"

definition stubClusterEnv ::
    "(error + storage_Cluster list) \<Rightarrow> (error + storage_Cluster option) \<Rightarrow>
     (error + storage_Cluster option) \<Rightarrow> error option \<Rightarrow> (unit, unit) ClusterEnv" where
  "stubClusterEnv listed posted put deleted =
     \<lparr>GetClusters = (\<lambda>s. (listed, s)), PostCluster = (\<lambda>req s. (posted, s)),
      PutCluster = (\<lambda>req s. (put, s)), DeleteCluster = (\<lambda>ident s. (deleted, s)),
      cl_Now = (\<lambda>s. (ex_now, s)), cl_zero = ()\<rparr>"

definition ex_cworld :: "(unit, unit) cworld" where
  "ex_cworld = \<lparr>calls = [], ext = ()\<rparr>"

definition ex_meta :: InitBundleMeta where
  "ex_meta = \<lparr>bm_Id = ''bundle-1'', bm_Name = ''edge'', bm_ImpactedClusters = [],
     bm_CreatedAt = None, bm_CreatedBy = None, bm_ExpiresAt = None\<rparr>"

definition ex_bundle :: "Condition list \<Rightarrow> InitBundle" where
  "ex_bundle conds = \<lparr>ib_Annotations = [AnnotationKeyExternalName \<mapsto> ''edge''],
     ib_ForProvider = \<lparr>bp_Name = ''edge-2''\<rparr>, ib_Conditions = conds,
     ib_AtProvider = initbundle_generateObservation ex_meta\<rparr>"

definition stubInitBundleEnv ::
    "(error + InitBundleMeta list) \<Rightarrow> (error + InitBundleGenResponse) \<Rightarrow> error option \<Rightarrow>
     unit InitBundleEnv" where
  "stubInitBundleEnv listed generated revoked =
     \<lparr>GetInitBundles = (\<lambda>s. (listed, s)), GenerateInitBundle = (\<lambda>name s. (generated, s)),
      RevokeInitBundle = (\<lambda>ids s. (revoked, s)), ib_Now = (\<lambda>s. (ex_now, s))\<rparr>"

definition ex_bworld :: "unit bworld" where
  "ex_bworld = \<lparr>calls = [], ext = ()\<rparr>"



definition ex_unavailable :: error where
  "ex_unavailable = GrpcStatus Unavailable ''connection refused''"

definition ex_notfound :: error where
  "ex_notfound = GrpcStatus NotFound ''not found''"

section \<open>Auxiliary facts\<close>

lemma getCluster_ok:
  "GetClusters env (ext w) = (Inr clusters, s) \<Longrightarrow>
   getCluster env cr w =
     (Inr (find (\<lambda>it. sc_Name it = GetExternalName (cl_Annotations cr)) clusters),
      \<lparr>calls = calls w @ [CallGetClusters], ext = s\<rparr>)"
  by (simp add: getCluster_def rpc_GetClusters_def)


lemma same_entries_refl: "same_entries a a"
  by (simp add: same_entries_def list_all_iff)

lemma same_entries_iff: "same_entries a b \<longleftrightarrow> entries a = entries b"
proof
  assume h: "same_entries a b"
  show "entries a = entries b"
  proof
    fix k
    show "entries a k = entries b k"
    proof (cases "k \<in> fst ` set (pairs a) \<union> fst ` set (pairs b)")
      case True
      with h show ?thesis by (auto simp: same_entries_def list_all_iff)
    next
      case False
      then have "map_of (pairs a) k = None" "map_of (pairs b) k = None"
        by (simp_all add: map_of_eq_None_iff)
      then show ?thesis by (simp add: entries_def)
    qed
  qed
next
  assume "entries a = entries b"
  then show "same_entries a b" by (simp add: same_entries_def list_all_iff)
qed

lemma CollectionMethod_roundtrip:
  "n \<in> set (map snd CollectionMethod_table) \<Longrightarrow> CollectionMethod_name (CollectionMethod_value n) = n"
  by (auto simp: CollectionMethod_table_def CollectionMethod_name_def CollectionMethod_value_def
      enum_name_def enum_value_def)

lemma ClusterType_roundtrip:
  "n \<in> set (map snd ClusterType_table) \<Longrightarrow> ClusterType_name (ClusterType_value n) = n"
  by (auto simp: ClusterType_table_def ClusterType_name_def ClusterType_value_def
      enum_name_def enum_value_def)

lemma generateCluster_frame:
  "sc_Id (generateCluster z p (Some c)) = sc_Id c"
  "sc_ManagedBy (generateCluster z p (Some c)) = sc_ManagedBy c"
  "sc_MostRecentSensorId (generateCluster z p (Some c)) = sc_MostRecentSensorId c"
  "storage_Cluster.more (generateCluster z p (Some c)) = storage_Cluster.more c"
  by (simp_all add: generateCluster_def)

lemma generateCluster_fields:
  "sc_AdmissionController (generateCluster z p b) = p_AdmissionController p"
  "sc_AdmissionControllerEvents (generateCluster z p b) = p_AdmissionControllerEvents p"
  "sc_AdmissionControllerUpdates (generateCluster z p b) = p_AdmissionControllerUpdates p"
  "sc_CentralApiEndpoint (generateCluster z p b) = p_CentralAPIEndpoint p"
  "sc_CollectionMethod (generateCluster z p b) = CollectionMethod_value (p_CollectionMethod p)"
  "sc_CollectorImage (generateCluster z p b) = p_CollectorImage p"
  "sc_Labels (generateCluster z p b) = p_Labels p"
  "sc_MainImage (generateCluster z p b) = p_MainImage p"
  "sc_Name (generateCluster z p b) = p_Name p"
  "sc_SlimCollector (generateCluster z p b) = p_SlimCollector p"
  "sc_TolerationsConfig (generateCluster z p b) = Some \<lparr>tc_Disabled = (\<not> p_Tolerations p)\<rparr>"
  "sc_Type (generateCluster z p b) = ClusterType_value (p_Type p)"
  by (simp_all add: generateCluster_def)







lemma bo_ID_generateObservation:
  "bo_ID (initbundle_generateObservation b) = bm_Id b"
  by (simp add: initbundle_generateObservation_def Let_def)


text \<open>
  The guard of \<^verbatim>\<open>Update\<close> of the InitBundle kind compares times too: a Ready
  condition that an earlier pass set to Creating and that was read back from storage is a
  Creating condition, but not the value built from the clock's reading, and Update goes
  on to revoke.
\<close>

lemma initbundle_Update_guard_compares_time:
  "Equal (GetCondition (ib_Conditions (ex_bundle [Creating ex_stored])) TypeReady) (Creating ex_now) \<and>
   calls (snd (snd (initbundle_Update (stubInitBundleEnv (Inr [ex_meta]) (Inl ex_unavailable) None)
                      (InitBundleMR (ex_bundle [Creating ex_stored])) ex_bworld)))
     = [CallRevokeInitBundle [''bundle-1'']]"
  by (simp add: initbundle_Update_def initbundle_Delete_def stubInitBundleEnv_def
      rpc_RevokeInitBundle_def initbundle_metav1_Now_def ex_bworld_def ex_bundle_def
      GetCondition_def Equal_def Creating_def Deleting_def bo_ID_generateObservation
      ex_meta_def ex_now_def ex_stored_def)

section \<open>Observe\<close>

text \<open>
  Claim C1. When the list call succeeds, Observe of the Cluster kind returns no error,
  and reports that the resource exists exactly when the returned collection has an entry
  whose name is the external name of the resource; an empty collection has none. The
  condition is on the set of the entries, so their order plays no part.
\<close>

theorem Observe_exists_iff_listed:
  assumes "GetClusters env (ext w) = (Inr clusters, s)"
  shows "\<exists>obs. fst (cluster_Observe env (ClusterMR cr) w) = Inr obs \<and>
           (ResourceExists obs \<longleftrightarrow>
              (\<exists>c \<in> set clusters. sc_Name c = GetExternalName (cl_Annotations cr)))"
proof (cases "find (\<lambda>it. sc_Name it = GetExternalName (cl_Annotations cr)) clusters")
  case None
  then have "\<not> (\<exists>c \<in> set clusters. sc_Name c = GetExternalName (cl_Annotations cr))"
    by (auto simp: find_None_iff)
  with None assms show ?thesis
    by (simp add: cluster_Observe_def getCluster_ok)
next
  case (Some c)
  then have "\<exists>c \<in> set clusters. sc_Name c = GetExternalName (cl_Annotations cr)"
    by (auto simp: find_Some_iff)
  with Some assms show ?thesis
    by (simp add: cluster_Observe_def getCluster_ok split_def Let_def)
qed

theorem Observe_exists_iff_listed_witness:
  "GetClusters (stubClusterEnv (Inr [ex_remote]) (Inr None) (Inr None) None) (ext ex_cworld)
     = (Inr [ex_remote], ()) \<and>
   (\<exists>obs. fst (cluster_Observe (stubClusterEnv (Inr [ex_remote]) (Inr None) (Inr None) None)
                 (ClusterMR ex_cluster) ex_cworld) = Inr obs \<and>
          ResourceExists obs)"
proof -
  have h: "GetClusters (stubClusterEnv (Inr [ex_remote]) (Inr None) (Inr None) None) (ext ex_cworld)
     = (Inr [ex_remote], ())"
    by (simp add: stubClusterEnv_def)
  have n: "sc_Name ex_remote = GetExternalName (cl_Annotations ex_cluster)"
    by (simp add: ex_remote_def ex_cluster_def GetExternalName_def)
  from Observe_exists_iff_listed [OF h, of ex_cluster] n h show ?thesis
    by simp
qed

section \<open>Delete\<close>

text \<open>
  Claim C2, as stated, fails: the remote service answers the delete call with a
  not-found status and Delete returns that error, wrapped with the DeleteFailed message.
\<close>

theorem Delete_notfound_counterexample:
  "fst (cluster_Delete (stubClusterEnv (Inr []) (Inr None) (Inr None) (Some ex_notfound))
          (ClusterMR ex_cluster) ex_cworld)
     = Some (ErrorsWrap (GrpcStatus NotFound ''not found'') cluster_errDeleteFailed)"
  by (simp add: cluster_Delete_def stubClusterEnv_def rpc_DeleteCluster_def
      cluster_metav1_Now_def ex_cworld_def ex_notfound_def)

text \<open>
  Claim C2, amended. For both kinds Delete returns what the remote delete call returns,
  wrapped with the DeleteFailed message of the kind: no error exactly when the remote
  call returns none, and every error of the remote service, a not-found status included,
  as DeleteFailed.
\<close>

theorem Delete_returns_remote_answer:
  assumes "DeleteCluster cenv (o_ID (cl_AtProvider cr)) (snd (cl_Now cenv (ext cw))) = (r, s)"
      and "RevokeInitBundle benv [bo_ID (ib_AtProvider b)] (snd (ib_Now benv (ext bw))) = (r', s')"
  shows "fst (cluster_Delete cenv (ClusterMR cr) cw) = errors_Wrap r cluster_errDeleteFailed \<and>
         (fst (cluster_Delete cenv (ClusterMR cr) cw) = None \<longleftrightarrow> r = None) \<and>
         fst (initbundle_Delete benv (InitBundleMR b) bw) = errors_Wrap r' initbundle_errDeleteFailed \<and>
         (fst (initbundle_Delete benv (InitBundleMR b) bw) = None \<longleftrightarrow> r' = None)"
proof -
  have c: "fst (cluster_Delete cenv (ClusterMR cr) cw) = errors_Wrap r cluster_errDeleteFailed"
    using assms(1)
    by (simp add: cluster_Delete_def rpc_DeleteCluster_def cluster_metav1_Now_def split_def Let_def)
  have i: "fst (initbundle_Delete benv (InitBundleMR b) bw) = errors_Wrap r' initbundle_errDeleteFailed"
    using assms(2)
    by (simp add: initbundle_Delete_def rpc_RevokeInitBundle_def initbundle_metav1_Now_def
        split_def Let_def)
  show ?thesis
    by (cases r; cases r') (simp_all add: c i)
qed

theorem Delete_returns_remote_answer_witness:
  "DeleteCluster (stubClusterEnv (Inr []) (Inr None) (Inr None) None)
       (o_ID (cl_AtProvider ex_cluster))
       (snd (cl_Now (stubClusterEnv (Inr []) (Inr None) (Inr None) None) (ext ex_cworld)))
     = (None, ()) \<and>
   RevokeInitBundle (stubInitBundleEnv (Inr []) (Inl ex_unavailable) (Some ex_notfound))
       [bo_ID (ib_AtProvider (ex_bundle []))]
       (snd (ib_Now (stubInitBundleEnv (Inr []) (Inl ex_unavailable) (Some ex_notfound)) (ext ex_bworld)))
     = (Some ex_notfound, ()) \<and>
   fst (cluster_Delete (stubClusterEnv (Inr []) (Inr None) (Inr None) None)
          (ClusterMR ex_cluster) ex_cworld) = None \<and>
   fst (initbundle_Delete (stubInitBundleEnv (Inr []) (Inl ex_unavailable) (Some ex_notfound))
          (InitBundleMR (ex_bundle [])) ex_bworld)
     = Some (ErrorsWrap ex_notfound initbundle_errDeleteFailed)"
proof -
  have h1: "DeleteCluster (stubClusterEnv (Inr []) (Inr None) (Inr None) None)
       (o_ID (cl_AtProvider ex_cluster))
       (snd (cl_Now (stubClusterEnv (Inr []) (Inr None) (Inr None) None) (ext ex_cworld)))
     = (None, ())"
    by (simp add: stubClusterEnv_def)
  have h2: "RevokeInitBundle (stubInitBundleEnv (Inr []) (Inl ex_unavailable) (Some ex_notfound))
       [bo_ID (ib_AtProvider (ex_bundle []))]
       (snd (ib_Now (stubInitBundleEnv (Inr []) (Inl ex_unavailable) (Some ex_notfound)) (ext ex_bworld)))
     = (Some ex_notfound, ())"
    by (simp add: stubInitBundleEnv_def)
  from Delete_returns_remote_answer [OF h1 h2] h1 h2 show ?thesis
    by simp
qed

section \<open>Update of the InitBundle kind\<close>





section \<open>The mapper's round trip\<close>

text \<open>
  Claim C4. For a parameter set whose collection method and type are declared variant
  names, the request \<^verbatim>\<open>generateCluster\<close> builds from it without a base is up to
  date with it: \<^verbatim>\<open>isUpToDate\<close> projects the request back to parameters and finds
  no difference.
\<close>

theorem roundtrip_diff_empty:
  assumes "p_CollectionMethod p \<in> set (map snd CollectionMethod_table)"
      and "p_Type p \<in> set (map snd ClusterType_table)"
      and "cl_ForProvider cr = p"
  shows "isUpToDate cr (generateCluster z p None) = (True, [])"
  using assms
  by (simp add: isUpToDate_def cmp_Diff_def differs_def generateCluster_fields GetDisabled_def
      CollectionMethod_roundtrip ClusterType_roundtrip same_entries_refl del: set_map)

theorem roundtrip_diff_empty_witness:
  "p_CollectionMethod ex_params \<in> set (map snd CollectionMethod_table) \<and>
   p_Type ex_params \<in> set (map snd ClusterType_table) \<and>
   cl_ForProvider ex_cluster = ex_params \<and>
   isUpToDate ex_cluster (generateCluster () ex_params None) = (True, [])"
proof -
  have h1: "p_CollectionMethod ex_params \<in> set (map snd CollectionMethod_table)"
    by (simp add: ex_params_def CollectionMethod_table_def)
  have h2: "p_Type ex_params \<in> set (map snd ClusterType_table)"
    by (simp add: ex_params_def ClusterType_table_def)
  have h3: "cl_ForProvider ex_cluster = ex_params"
    by (simp add: ex_cluster_def)
  from roundtrip_diff_empty [OF h1 h2 h3, of "()"] h1 h2 h3 show ?thesis
    by simp
qed

section \<open>Update of the Cluster kind\<close>

text \<open>
  Claim C5 on the code: the list call returns the entry of the resource and the replace
  call fails. Update of the Cluster kind returns the error wrapped with the message of
  \<^verbatim>\<open>errCreateFailed\<close>, not with that of \<^verbatim>\<open>errUpdateFailed\<close>.
\<close>

theorem cluster_Update_replace_fails_wrapped_CreateFailed:
  "fst (cluster_Update (stubClusterEnv (Inr [ex_remote]) (Inr None) (Inl ex_unavailable) None)
          (ClusterMR ex_cluster) ex_cworld)
     = Some (ErrorsWrap ex_unavailable ''cannot create cluster'') \<and>
   cluster_errUpdateFailed = ''cannot update cluster''"
  by (simp add: cluster_Update_def getCluster_def rpc_GetClusters_def rpc_PutCluster_def
      stubClusterEnv_def ex_cworld_def ex_cluster_def ex_remote_def GetExternalName_def
      cluster_errCreateFailed_def cluster_errUpdateFailed_def)

text \<open>
  Claim C6. When the list call returns an entry named by the external name, Update of
  the Cluster kind issues the list call and then one replace call; its request is
  \<^verbatim>\<open>generateCluster\<close> of the parameters on the first such entry \<open>c\<close>. The request
  has the identifier, the manager type, the sensor identification and every unnamed
  field of \<open>c\<close> unchanged, and the mapped parameters in the other fields.
\<close>

theorem cluster_Update_replace_request:
  assumes "GetClusters env (ext w) = (Inr clusters, s)"
      and "find (\<lambda>it. sc_Name it = GetExternalName (cl_Annotations cr)) clusters = Some c"
      and "req = generateCluster (cl_zero env) (cl_ForProvider cr) (Some c)"
  shows "calls (snd (snd (cluster_Update env (ClusterMR cr) w)))
           = calls w @ [CallGetClusters, CallPutCluster req] \<and>
         sc_Id req = sc_Id c \<and>
         sc_ManagedBy req = sc_ManagedBy c \<and>
         sc_MostRecentSensorId req = sc_MostRecentSensorId c \<and>
         storage_Cluster.more req = storage_Cluster.more c \<and>
         sc_CollectorImage req = p_CollectorImage (cl_ForProvider cr) \<and>
         sc_MainImage req = p_MainImage (cl_ForProvider cr) \<and>
         sc_Name req = p_Name (cl_ForProvider cr) \<and>
         sc_Labels req = p_Labels (cl_ForProvider cr) \<and>
         sc_CentralApiEndpoint req = p_CentralAPIEndpoint (cl_ForProvider cr) \<and>
         sc_AdmissionController req = p_AdmissionController (cl_ForProvider cr) \<and>
         sc_AdmissionControllerEvents req = p_AdmissionControllerEvents (cl_ForProvider cr) \<and>
         sc_AdmissionControllerUpdates req = p_AdmissionControllerUpdates (cl_ForProvider cr) \<and>
         sc_SlimCollector req = p_SlimCollector (cl_ForProvider cr) \<and>
         sc_CollectionMethod req = CollectionMethod_value (p_CollectionMethod (cl_ForProvider cr)) \<and>
         sc_Type req = ClusterType_value (p_Type (cl_ForProvider cr)) \<and>
         sc_TolerationsConfig req = Some \<lparr>tc_Disabled = (\<not> p_Tolerations (cl_ForProvider cr))\<rparr>"
proof -
  have "calls (snd (snd (cluster_Update env (ClusterMR cr) w)))
           = calls w @ [CallGetClusters, CallPutCluster req]"
    using assms
    by (simp add: cluster_Update_def getCluster_ok rpc_PutCluster_def split_def Let_def
        split: sum.splits option.splits)
  then show ?thesis
    by (simp add: assms(3) generateCluster_frame generateCluster_fields)
qed

theorem cluster_Update_replace_request_witness:
  "GetClusters (stubClusterEnv (Inr [ex_remote]) (Inr None) (Inr None) None) (ext ex_cworld)
     = (Inr [ex_remote], ()) \<and>
   find (\<lambda>it. sc_Name it = GetExternalName (cl_Annotations ex_cluster)) [ex_remote] = Some ex_remote \<and>
   calls (snd (snd (cluster_Update (stubClusterEnv (Inr [ex_remote]) (Inr None) (Inr None) None)
                      (ClusterMR ex_cluster) ex_cworld)))
     = [CallGetClusters, CallPutCluster (ex_remote\<lparr>sc_Labels := None,
          sc_CollectorImage := ''collector:2'',
          sc_TolerationsConfig := Some \<lparr>tc_Disabled = False\<rparr>\<rparr>)]"
proof -
  let ?E = "stubClusterEnv (Inr [ex_remote]) (Inr None) (Inr None) None"
  have h1: "GetClusters ?E (ext ex_cworld) = (Inr [ex_remote], ())"
    by (simp add: stubClusterEnv_def)
  have h2: "find (\<lambda>it. sc_Name it = GetExternalName (cl_Annotations ex_cluster)) [ex_remote]
              = Some ex_remote"
    by (simp add: ex_cluster_def ex_remote_def GetExternalName_def)
  have h3: "ex_remote\<lparr>sc_Labels := None, sc_CollectorImage := ''collector:2'',
              sc_TolerationsConfig := Some \<lparr>tc_Disabled = False\<rparr>\<rparr>
            = generateCluster (cl_zero ?E) (cl_ForProvider ex_cluster) (Some ex_remote)"
    by (simp add: generateCluster_def ex_cluster_def ex_params_def ex_remote_def
        CollectionMethod_value_def ClusterType_value_def enum_value_def
        CollectionMethod_table_def ClusterType_table_def)
  from cluster_Update_replace_request [OF h1 h2 h3] h1 h2 show ?thesis
    by (simp add: ex_cworld_def)
qed

text \<open>
  Claim C10. When the list call at the start of Update returns no entry named by the
  external name, Update of the Cluster kind returns no error, has issued the list call
  only, and leaves the resource (status and annotations) as it was.
\<close>

theorem cluster_Update_absent_noop:
  assumes "GetClusters env (ext w) = (Inr clusters, s)"
      and "\<forall>c \<in> set clusters. sc_Name c \<noteq> GetExternalName (cl_Annotations cr)"
  shows "cluster_Update env (ClusterMR cr) w =
           (None, ClusterMR cr, \<lparr>calls = calls w @ [CallGetClusters], ext = s\<rparr>)"
proof -
  from assms(2) have "find (\<lambda>it. sc_Name it = GetExternalName (cl_Annotations cr)) clusters = None"
    by (simp add: find_None_iff)
  with assms(1) show ?thesis
    by (simp add: cluster_Update_def getCluster_ok)
qed

theorem cluster_Update_absent_noop_witness:
  "GetClusters (stubClusterEnv (Inr [ex_remote\<lparr>sc_Name := ''staging''\<rparr>]) (Inr None) (Inl ex_unavailable) None)
       (ext ex_cworld) = (Inr [ex_remote\<lparr>sc_Name := ''staging''\<rparr>], ()) \<and>
   sc_Name (ex_remote\<lparr>sc_Name := ''staging''\<rparr>) \<noteq> GetExternalName (cl_Annotations ex_cluster) \<and>
   cluster_Update (stubClusterEnv (Inr [ex_remote\<lparr>sc_Name := ''staging''\<rparr>]) (Inr None) (Inl ex_unavailable) None)
       (ClusterMR ex_cluster) ex_cworld
     = (None, ClusterMR ex_cluster, \<lparr>calls = [CallGetClusters], ext = ()\<rparr>)"
proof -
  let ?E = "stubClusterEnv (Inr [ex_remote\<lparr>sc_Name := ''staging''\<rparr>]) (Inr None) (Inl ex_unavailable) None"
  have h1: "GetClusters ?E (ext ex_cworld) = (Inr [ex_remote\<lparr>sc_Name := ''staging''\<rparr>], ())"
    by (simp add: stubClusterEnv_def)
  have n: "sc_Name (ex_remote\<lparr>sc_Name := ''staging''\<rparr>) \<noteq> GetExternalName (cl_Annotations ex_cluster)"
    by (simp add: ex_cluster_def GetExternalName_def)
  then have h2: "\<forall>c \<in> set [ex_remote\<lparr>sc_Name := ''staging''\<rparr>].
                 sc_Name c \<noteq> GetExternalName (cl_Annotations ex_cluster)"
    by simp
  from cluster_Update_absent_noop [OF h1 h2] h1 n show ?thesis
    by (simp add: ex_cworld_def)
qed

section \<open>Create\<close>

text \<open>
  Claim C7. For both kinds, when the remote create call fails with \<open>e\<close>, Create
  returns \<open>e\<close> wrapped with the CreateFailed message and leaves the annotations of the
  resource as they were: the external name is what it was before, unset if it was unset.
\<close>

theorem Create_failure_keeps_unlinked:
  assumes "fst (PostCluster cenv (generateCluster (cl_zero cenv) (cl_ForProvider cr) None)
                  (snd (cl_Now cenv (ext cw)))) = Inl e"
      and "fst (GenerateInitBundle benv (bp_Name (ib_ForProvider b)) (snd (ib_Now benv (ext bw))))
             = Inl e'"
  shows "fst (cluster_Create cenv (ClusterMR cr) cw) = Inl (ErrorsWrap e cluster_errCreateFailed) \<and>
         (\<exists>cr'. fst (snd (cluster_Create cenv (ClusterMR cr) cw)) = ClusterMR cr' \<and>
                cl_Annotations cr' = cl_Annotations cr \<and>
                GetExternalName (cl_Annotations cr') = GetExternalName (cl_Annotations cr)) \<and>
         fst (initbundle_Create benv (InitBundleMR b) bw)
           = Inl (ErrorsWrap e' initbundle_errCreateFailed) \<and>
         (\<exists>b'. fst (snd (initbundle_Create benv (InitBundleMR b) bw)) = InitBundleMR b' \<and>
               ib_Annotations b' = ib_Annotations b \<and>
               GetExternalName (ib_Annotations b') = GetExternalName (ib_Annotations b))"
proof -
  obtain r s where p: "PostCluster cenv (generateCluster (cl_zero cenv) (cl_ForProvider cr) None)
                  (snd (cl_Now cenv (ext cw))) = (r, s)"
    by (cases "PostCluster cenv (generateCluster (cl_zero cenv) (cl_ForProvider cr) None)
                  (snd (cl_Now cenv (ext cw)))") simp
  with assms(1) have r: "r = Inl e" by simp
  obtain r' s' where g: "GenerateInitBundle benv (bp_Name (ib_ForProvider b))
                  (snd (ib_Now benv (ext bw))) = (r', s')"
    by (cases "GenerateInitBundle benv (bp_Name (ib_ForProvider b))
                  (snd (ib_Now benv (ext bw)))") simp
  with assms(2) have r': "r' = Inl e'" by simp
  have c: "cluster_Create cenv (ClusterMR cr) cw =
             (Inl (ErrorsWrap e cluster_errCreateFailed),
              ClusterMR (cr\<lparr>cl_Conditions :=
                 SetConditions (Creating (fst (cl_Now cenv (ext cw)))) (cl_Conditions cr)\<rparr>),
              \<lparr>calls = calls cw @
                 [CallPostCluster (generateCluster (cl_zero cenv) (cl_ForProvider cr) None)],
               ext = s\<rparr>)"
    using p r
    by (simp add: cluster_Create_def rpc_PostCluster_def cluster_metav1_Now_def split_def Let_def)
  have i: "initbundle_Create benv (InitBundleMR b) bw =
             (Inl (ErrorsWrap e' initbundle_errCreateFailed),
              InitBundleMR (b\<lparr>ib_Conditions :=
                 SetConditions (Creating (fst (ib_Now benv (ext bw)))) (ib_Conditions b)\<rparr>),
              \<lparr>calls = calls bw @ [CallGenerateInitBundle (bp_Name (ib_ForProvider b))],
               ext = s'\<rparr>)"
    using g r'
    by (simp add: initbundle_Create_def rpc_GenerateInitBundle_def initbundle_metav1_Now_def
        split_def Let_def)
  show ?thesis
    by (simp add: c i)
qed

theorem Create_failure_keeps_unlinked_witness:
  "fst (PostCluster (stubClusterEnv (Inr []) (Inl ex_unavailable) (Inr None) None)
          (generateCluster (cl_zero (stubClusterEnv (Inr []) (Inl ex_unavailable) (Inr None) None))
             (cl_ForProvider (ex_cluster\<lparr>cl_Annotations := Map.empty\<rparr>)) None)
          (snd (cl_Now (stubClusterEnv (Inr []) (Inl ex_unavailable) (Inr None) None) (ext ex_cworld))))
     = Inl ex_unavailable \<and>
   fst (GenerateInitBundle (stubInitBundleEnv (Inr []) (Inl ex_unavailable) None)
          (bp_Name (ib_ForProvider ((ex_bundle [])\<lparr>ib_Annotations := Map.empty\<rparr>)))
          (snd (ib_Now (stubInitBundleEnv (Inr []) (Inl ex_unavailable) None) (ext ex_bworld))))
     = Inl ex_unavailable \<and>
   fst (cluster_Create (stubClusterEnv (Inr []) (Inl ex_unavailable) (Inr None) None)
          (ClusterMR (ex_cluster\<lparr>cl_Annotations := Map.empty\<rparr>)) ex_cworld)
     = Inl (ErrorsWrap ex_unavailable cluster_errCreateFailed) \<and>
   (\<exists>cr'. fst (snd (cluster_Create (stubClusterEnv (Inr []) (Inl ex_unavailable) (Inr None) None)
                      (ClusterMR (ex_cluster\<lparr>cl_Annotations := Map.empty\<rparr>)) ex_cworld))
            = ClusterMR cr' \<and>
          GetExternalName (cl_Annotations cr') = []) \<and>
   fst (initbundle_Create (stubInitBundleEnv (Inr []) (Inl ex_unavailable) None)
          (InitBundleMR ((ex_bundle [])\<lparr>ib_Annotations := Map.empty\<rparr>)) ex_bworld)
     = Inl (ErrorsWrap ex_unavailable initbundle_errCreateFailed) \<and>
   (\<exists>b'. fst (snd (initbundle_Create (stubInitBundleEnv (Inr []) (Inl ex_unavailable) None)
                     (InitBundleMR ((ex_bundle [])\<lparr>ib_Annotations := Map.empty\<rparr>)) ex_bworld))
            = InitBundleMR b' \<and>
          GetExternalName (ib_Annotations b') = [])"
proof -
  let ?C = "stubClusterEnv (Inr []) (Inl ex_unavailable) (Inr None) None"
  let ?B = "stubInitBundleEnv (Inr []) (Inl ex_unavailable) None"
  have h1: "fst (PostCluster ?C
          (generateCluster (cl_zero ?C) (cl_ForProvider (ex_cluster\<lparr>cl_Annotations := Map.empty\<rparr>)) None)
          (snd (cl_Now ?C (ext ex_cworld)))) = Inl ex_unavailable"
    by (simp add: stubClusterEnv_def)
  have h2: "fst (GenerateInitBundle ?B
          (bp_Name (ib_ForProvider ((ex_bundle [])\<lparr>ib_Annotations := Map.empty\<rparr>)))
          (snd (ib_Now ?B (ext ex_bworld)))) = Inl ex_unavailable"
    by (simp add: stubInitBundleEnv_def)
  have n: "GetExternalName Map.empty = []"
    by (simp add: GetExternalName_def)
  from Create_failure_keeps_unlinked [OF h1 h2] h1 h2 n show ?thesis
    by auto
qed

section \<open>The negated Tolerations flag\<close>

text \<open>
  Claim C8. The request built from a parameter set has a tolerations configuration whose
  disabled flag is the negation of the Tolerations toggle (false for Tolerations = true);
  the observation of any remote entry has Tolerations equal to the negation of the
  disabled flag; so the toggle comes back as it went in, true as true.
\<close>

theorem Tolerations_negated_roundtrip:
  "sc_TolerationsConfig (generateCluster z p base) = Some \<lparr>tc_Disabled = (\<not> p_Tolerations p)\<rparr> \<and>
   GetDisabled (sc_TolerationsConfig (generateCluster z (p\<lparr>p_Tolerations := True\<rparr>) base)) = False \<and>
   o_Tolerations (generateObservation c) = (\<not> GetDisabled (sc_TolerationsConfig c)) \<and>
   o_Tolerations (generateObservation (generateCluster z p base)) = p_Tolerations p \<and>
   o_Tolerations (generateObservation (generateCluster z (p\<lparr>p_Tolerations := True\<rparr>) base)) = True"
  by (simp add: generateCluster_fields generateObservation_def Let_def GetDisabled_def)

section \<open>Disconnect\<close>

text \<open>
  Claim C9, as stated, fails: Disconnect on an open connection succeeds and leaves the
  closed connection bound; Disconnect on that connector, whose connection is already
  closed, returns the error of the second \<^verbatim>\<open>Close\<close>.
\<close>

theorem Disconnect_twice_counterexample:
  "fst (cluster_Disconnect \<lparr>external = Some \<lparr>client = Some ConnOpen\<rparr>\<rparr>) = None \<and>
   snd (cluster_Disconnect \<lparr>external = Some \<lparr>client = Some ConnOpen\<rparr>\<rparr>)
     = \<lparr>external = Some \<lparr>client = Some ConnClosed\<rparr>\<rparr> \<and>
   fst (cluster_Disconnect \<lparr>external = Some \<lparr>client = Some ConnClosed\<rparr>\<rparr>)
     = Some (ErrorsWrap (ErrorsWrap ErrClientConnClosing ErrCloseClient) ErrCloseClient)"
  by (simp add: cluster_Disconnect_def close_def)

text \<open>
  Claim C9, amended. For both kinds: Disconnect on a connector with no external client
  or with an external client that has no connection (Connect never succeeded) returns no
  error and changes nothing. On a bound connection it calls \<^verbatim>\<open>Close\<close>, returns
  what \<^verbatim>\<open>Close\<close> returns wrapped twice with \<^verbatim>\<open>ErrCloseClient\<close>, and leaves
  the connection bound; for an open connection that is no error.
\<close>

theorem Disconnect_outcome:
  "(external c = None \<or> (\<exists>e. external c = Some e \<and> client e = None) \<longrightarrow>
      cluster_Disconnect c = (None, c) \<and> initbundle_Disconnect c = (None, c)) \<and>
   (external c = Some e \<and> client e = Some conn \<longrightarrow>
      cluster_Disconnect c =
        (errors_Wrap (errors_Wrap (fst (grpc_Close conn)) ErrCloseClient) ErrCloseClient,
         c\<lparr>external := Some (e\<lparr>client := Some (snd (grpc_Close conn))\<rparr>)\<rparr>) \<and>
      initbundle_Disconnect c =
        (errors_Wrap (errors_Wrap (fst (grpc_Close conn)) ErrCloseClient) ErrCloseClient,
         c\<lparr>external := Some (e\<lparr>client := Some (snd (grpc_Close conn))\<rparr>)\<rparr>)) \<and>
   (external c = Some e \<and> client e = Some ConnOpen \<longrightarrow>
      fst (cluster_Disconnect c) = None \<and> fst (initbundle_Disconnect c) = None)"
proof (intro conjI impI)
  assume "external c = None \<or> (\<exists>e. external c = Some e \<and> client e = None)"
  then have "close (external c) = (None, external c)"
    by (auto simp: close_def)
  then show "cluster_Disconnect c = (None, c)" "initbundle_Disconnect c = (None, c)"
    by (simp_all add: cluster_Disconnect_def initbundle_Disconnect_def)
next
  assume "external c = Some e \<and> client e = Some conn"
  then have "close (external c) =
      (errors_Wrap (fst (grpc_Close conn)) ErrCloseClient,
       Some (e\<lparr>client := Some (snd (grpc_Close conn))\<rparr>))"
    by (simp add: close_def split_def Let_def)
  then show "cluster_Disconnect c =
        (errors_Wrap (errors_Wrap (fst (grpc_Close conn)) ErrCloseClient) ErrCloseClient,
         c\<lparr>external := Some (e\<lparr>client := Some (snd (grpc_Close conn))\<rparr>)\<rparr>)"
    "initbundle_Disconnect c =
        (errors_Wrap (errors_Wrap (fst (grpc_Close conn)) ErrCloseClient) ErrCloseClient,
         c\<lparr>external := Some (e\<lparr>client := Some (snd (grpc_Close conn))\<rparr>)\<rparr>)"
    by (simp_all add: cluster_Disconnect_def initbundle_Disconnect_def)
next
  assume "external c = Some e \<and> client e = Some ConnOpen"
  then have "close (external c) = (None, Some (e\<lparr>client := Some ConnClosed\<rparr>))"
    by (simp add: close_def)
  then show "fst (cluster_Disconnect c) = None" "fst (initbundle_Disconnect c) = None"
    by (simp_all add: cluster_Disconnect_def initbundle_Disconnect_def)
qed

theorem Disconnect_outcome_witness:
  "cluster_Disconnect \<lparr>external = None\<rparr> = (None, \<lparr>external = None\<rparr>) \<and>
   initbundle_Disconnect \<lparr>external = None\<rparr> = (None, \<lparr>external = None\<rparr>) \<and>
   cluster_Disconnect \<lparr>external = Some \<lparr>client = None\<rparr>\<rparr>
     = (None, \<lparr>external = Some \<lparr>client = None\<rparr>\<rparr>) \<and>
   cluster_Disconnect \<lparr>external = Some \<lparr>client = Some ConnOpen\<rparr>\<rparr>
     = (None, \<lparr>external = Some \<lparr>client = Some ConnClosed\<rparr>\<rparr>) \<and>
   initbundle_Disconnect \<lparr>external = Some \<lparr>client = Some ConnOpen\<rparr>\<rparr>
     = (None, \<lparr>external = Some \<lparr>client = Some ConnClosed\<rparr>\<rparr>)"
proof -
  from Disconnect_outcome [of "\<lparr>external = None\<rparr>"]
  have a: "cluster_Disconnect \<lparr>external = None\<rparr> = (None, \<lparr>external = None\<rparr>) \<and>
           initbundle_Disconnect \<lparr>external = None\<rparr> = (None, \<lparr>external = None\<rparr>)"
    by simp
  from Disconnect_outcome [of "\<lparr>external = Some \<lparr>client = None\<rparr>\<rparr>"]
  have b: "cluster_Disconnect \<lparr>external = Some \<lparr>client = None\<rparr>\<rparr>
             = (None, \<lparr>external = Some \<lparr>client = None\<rparr>\<rparr>)"
    by simp
  from Disconnect_outcome [of "\<lparr>external = Some \<lparr>client = Some ConnOpen\<rparr>\<rparr>"
      "\<lparr>client = Some ConnOpen\<rparr>" ConnOpen]
  have c: "cluster_Disconnect \<lparr>external = Some \<lparr>client = Some ConnOpen\<rparr>\<rparr>
             = (None, \<lparr>external = Some \<lparr>client = Some ConnClosed\<rparr>\<rparr>) \<and>
           initbundle_Disconnect \<lparr>external = Some \<lparr>client = Some ConnOpen\<rparr>\<rparr>
             = (None, \<lparr>external = Some \<lparr>client = Some ConnClosed\<rparr>\<rparr>)"
    by simp
  from a b c show ?thesis by simp
qed

end
